theory Spec2Isabelle
  imports Main
begin

section \<open>JavaScript values\<close>

text \<open>
  A TypeScript position of type \<open>T | null | undefined\<close> holds a value of \<open>'a js\<close>.
  An optional property that was never assigned reads as \<open>undefined\<close> in JavaScript, so
  an absent field of an object is \<open>Undefined\<close> here. The parameter \<open>currentValue\<close>
  (declared \<open>string | undefined\<close>) and the parameter \<open>currentVersion\<close> (declared
  \<open>string\<close>, and tested for falsiness by the source) range over the same type. The
  theorems below hold for every value of it; the concrete inputs of this file use a
  string or \<open>undefined\<close> for both.
\<close>

datatype 'a js = Undefined | Null | Val 'a

text \<open>Truthiness of a string position: \<open>undefined\<close>, \<open>null\<close> and \<open>''\<close> are falsy.\<close>

fun truthy :: "string js \<Rightarrow> bool" where
  "truthy Undefined = False"
| "truthy Null = False"
| "truthy (Val s) = (s \<noteq> [])"

text \<open>
  Truthiness of a position whose values, when present, are all truthy (an enum of
  non-empty string literals).
\<close>

fun isSet :: "'a js \<Rightarrow> bool" where
  "isSet Undefined = False"
| "isSet Null = False"
| "isSet (Val x) = True"

text \<open>\<open>is.nonEmptyArray\<close> of \<open>@sindresorhus/is\<close>: an array with at least one element.\<close>

fun nonEmptyArray :: "'a list js \<Rightarrow> bool" where
  "nonEmptyArray (Val (x # xs)) = True"
| "nonEmptyArray (Val []) = False"
| "nonEmptyArray Undefined = False"
| "nonEmptyArray Null = False"

section \<open>Data model\<close>

text \<open>
  Modelled from the spec: the type declarations that the source imports (\<open>Release\<close>,
  \<open>LookupUpdate\<close>, \<open>VersioningApi\<close>, \<open>RangeStrategy\<close>, \<open>UpdateType\<close>,
  \<open>LookupUpdateConfig\<close>, the merge confidence levels) are not among the source files.
  The records below have the fields that the function reads and writes, with the types
  of the specification's data model; the enumerations have the values it lists.
\<close>

datatype RangeStrategy =
  Replace | Widen | Pin | Bump | UpdateLockfile | InRangeOnly | Auto

datatype UpdateType =
  Major | Minor | Patch | PinType | Digest | Rollback | Replacement | BumpType

datatype MergeConfidence = Low | Neutral | High | VeryHigh

text \<open>An exception value thrown by a versioning scheme.\<close>

datatype exn = Error string

record Release =
  version :: string
  checksumUrl :: "string js"
  downloadUrl :: "string js"
  newDigest :: "string js"
  releaseTimestamp :: "string js"
  registryUrl :: "string js"

record PackageRule =
  matchConfidence :: "MergeConfidence list js"

record LookupUpdateConfig =
  datasource :: string
  packageName :: string
  packageRules :: "PackageRule list js"

text \<open>
  The versioning scheme. \<open>getNewValue\<close> is the one capability the source calls inside
  \<open>try\<close>: it either throws (\<open>Inl\<close>) or returns a string or \<open>null\<close> (the source silences
  the \<open>null\<close> with a non-null assertion, which has no effect at run time). Its argument
  object \<open>{currentValue, rangeStrategy, currentVersion, newVersion}\<close> is passed as four
  arguments in that order. \<open>isBreaking\<close> is an optional capability. The other
  capabilities are called outside any handler; their fields give the value a call
  returns, and whether a call throws instead is a separate parameter of the runs with
  exceptions further down.
\<close>

record VersioningApi =
  isVersion :: "string js \<Rightarrow> bool"
  getMajor :: "string \<Rightarrow> int js"
  getMinor :: "string \<Rightarrow> int js"
  getPatch :: "string \<Rightarrow> int js"
  isBreaking :: "(string js \<Rightarrow> string \<Rightarrow> bool) option"
  getNewValue :: "string js \<Rightarrow> RangeStrategy \<Rightarrow> string js \<Rightarrow> string \<Rightarrow> exn + string js"
  matches :: "string \<Rightarrow> string js \<Rightarrow> bool"

text \<open>
  The functions imported from other modules of the repository, taken as parameters:
  \<open>getElapsedDays\<close> (which reads the clock), \<open>getMergeConfidenceLevel\<close> (whose result
  the source awaits) and \<open>getUpdateType\<close>. They are called outside any handler;
  their fields give the value a call returns, as for the scheme.
\<close>

record Imports =
  getElapsedDays :: "string \<Rightarrow> int"
  getMergeConfidenceLevel ::
    "string \<Rightarrow> string \<Rightarrow> string js \<Rightarrow> string \<Rightarrow> UpdateType js \<Rightarrow> MergeConfidence js"
  getUpdateType ::
    "LookupUpdateConfig \<Rightarrow> VersioningApi \<Rightarrow> string js \<Rightarrow> string \<Rightarrow> UpdateType"

record LookupUpdate =
  bucket :: string
  newVersion :: string
  newValue :: "string js"
  checksumUrl :: "string js"
  downloadUrl :: "string js"
  newDigest :: "string js"
  releaseTimestamp :: "string js"
  newVersionAgeInDays :: "int js"
  registryUrl :: "string js"
  newMajor :: "int js"
  newMinor :: "int js"
  newPatch :: "int js"
  updateType :: "UpdateType js"
  isBreaking :: "bool js"
  mergeConfidenceLevel :: "MergeConfidence js"
  isRange :: "bool js"
  isLockfileUpdate :: "bool js"
  isBump :: "bool js"

section \<open>Effects\<close>

text \<open>
  The function calls into the versioning scheme, into imported functions and into the
  logger. Each call is recorded, in program order, with its arguments; the state of a run
  is the descriptor under construction together with the calls made so far.
\<close>

datatype event =
    Call_getElapsedDays string
  | Call_getNewValue "string js" RangeStrategy "string js" string
  | Call_getMajor string
  | Call_getMinor string
  | Call_getPatch string
  | Call_getUpdateType "string js" string
  | Call_isBreaking "string js" string
  | Call_getMergeConfidenceLevel string string "string js" string "UpdateType js"
  | Call_isVersion "string js"
  | Call_matches string "string js"
  | Logger_warn exn "string js" RangeStrategy "string js" string string
  | Logger_debug LookupUpdate string

record run =
  update :: LookupUpdate
  calls :: "event list"

definition call :: "event \<Rightarrow> run \<Rightarrow> run" where
  "call e s = s\<lparr>calls := calls s @ [e]\<rparr>"

definition assign :: "(LookupUpdate \<Rightarrow> LookupUpdate) \<Rightarrow> run \<Rightarrow> run" where
  "assign f s = s\<lparr>update := f (update s)\<rparr>"

section \<open>generateUpdate\<close>

text \<open>Lines 252 to 257: the fresh descriptor, \<open>newValue\<close> initialised to \<open>null\<close>.\<close>

definition initial :: "string \<Rightarrow> Release \<Rightarrow> run" where
  "initial bkt release =
     \<lparr>update =
        \<lparr>bucket = bkt, newVersion = version release, newValue = Null,
         checksumUrl = Undefined, downloadUrl = Undefined, newDigest = Undefined,
         releaseTimestamp = Undefined, newVersionAgeInDays = Undefined,
         registryUrl = Undefined, newMajor = Undefined, newMinor = Undefined,
         newPatch = Undefined, updateType = Undefined, isBreaking = Undefined,
         mergeConfidenceLevel = Undefined, isRange = Undefined,
         isLockfileUpdate = Undefined, isBump = Undefined\<rparr>,
      calls = []\<rparr>"

text \<open>Lines 259 to 284: the optional fields of the release.\<close>

definition copyChecksumUrl :: "Release \<Rightarrow> run \<Rightarrow> run" where
  "copyChecksumUrl release s =
     (if Release.checksumUrl release \<noteq> Undefined
      then assign (\<lambda>u. u\<lparr>checksumUrl := Release.checksumUrl release\<rparr>) s
      else s)"

definition copyDownloadUrl :: "Release \<Rightarrow> run \<Rightarrow> run" where
  "copyDownloadUrl release s =
     (if Release.downloadUrl release \<noteq> Undefined
      then assign (\<lambda>u. u\<lparr>downloadUrl := Release.downloadUrl release\<rparr>) s
      else s)"

definition copyNewDigest :: "Release \<Rightarrow> run \<Rightarrow> run" where
  "copyNewDigest release s =
     (if Release.newDigest release \<noteq> Undefined
      then assign (\<lambda>u. u\<lparr>newDigest := Release.newDigest release\<rparr>) s
      else s)"

definition copyReleaseTimestamp :: "Imports \<Rightarrow> Release \<Rightarrow> run \<Rightarrow> run" where
  "copyReleaseTimestamp imp release s =
     (case Release.releaseTimestamp release of
        Val ts \<Rightarrow>
          if ts \<noteq> [] then
            assign (\<lambda>u. u\<lparr>newVersionAgeInDays := Val (getElapsedDays imp ts)\<rparr>)
              (call (Call_getElapsedDays ts)
                (assign (\<lambda>u. u\<lparr>releaseTimestamp := Val ts\<rparr>) s))
          else s
      | _ \<Rightarrow> s)"

definition copyRegistryUrl :: "Release \<Rightarrow> run \<Rightarrow> run" where
  "copyRegistryUrl release s =
     (if Release.registryUrl release \<noteq> Undefined
      then assign (\<lambda>u. u\<lparr>registryUrl := Release.registryUrl release\<rparr>) s
      else s)"

definition copyReleaseFields :: "Imports \<Rightarrow> Release \<Rightarrow> run \<Rightarrow> run" where
  "copyReleaseFields imp release s =
     copyRegistryUrl release
       (copyReleaseTimestamp imp release
         (copyNewDigest release
           (copyDownloadUrl release
             (copyChecksumUrl release s))))"

text \<open>
  Lines 286 to 303: the rewritten value. The \<open>catch\<close> clause is the \<open>Inl\<close> branch: it logs
  a warning and assigns \<open>currentValue\<close>.
\<close>

definition computeNewValue ::
  "VersioningApi \<Rightarrow> string js \<Rightarrow> RangeStrategy \<Rightarrow> string js \<Rightarrow> string \<Rightarrow> run \<Rightarrow> run" where
  "computeNewValue api currentValue rangeStrategy currentVersion nv s =
     (if truthy currentValue then
        (case getNewValue api currentValue rangeStrategy currentVersion nv of
           Inr v \<Rightarrow>
             assign (\<lambda>u. u\<lparr>newValue := v\<rparr>)
               (call (Call_getNewValue currentValue rangeStrategy currentVersion nv) s)
         | Inl err \<Rightarrow>
             assign (\<lambda>u. u\<lparr>newValue := currentValue\<rparr>)
               (call (Logger_warn err currentValue rangeStrategy currentVersion nv
                        ''getNewValue error'')
                 (call (Call_getNewValue currentValue rangeStrategy currentVersion nv) s)))
      else assign (\<lambda>u. u\<lparr>newValue := currentValue\<rparr>) s)"

text \<open>Lines 304 to 306: the parts of the new version.\<close>

definition computeParts :: "VersioningApi \<Rightarrow> string \<Rightarrow> run \<Rightarrow> run" where
  "computeParts api nv s =
     assign (\<lambda>u. u\<lparr>newPatch := getPatch api nv\<rparr>)
       (call (Call_getPatch nv)
         (assign (\<lambda>u. u\<lparr>newMinor := getMinor api nv\<rparr>)
           (call (Call_getMinor nv)
             (assign (\<lambda>u. u\<lparr>newMajor := getMajor api nv\<rparr>)
               (call (Call_getMajor nv) s)))))"

text \<open>Lines 313 to 315: \<open>update.updateType ?? getUpdateType(...)\<close>.\<close>

definition classify ::
  "Imports \<Rightarrow> LookupUpdateConfig \<Rightarrow> VersioningApi \<Rightarrow> string js \<Rightarrow> string \<Rightarrow> run \<Rightarrow> run" where
  "classify imp config api currentVersion nv s =
     (case updateType (update s) of
        Val t \<Rightarrow> assign (\<lambda>u. u\<lparr>updateType := Val t\<rparr>) s
      | _ \<Rightarrow>
          assign (\<lambda>u. u\<lparr>updateType := Val (getUpdateType imp config api currentVersion nv)\<rparr>)
            (call (Call_getUpdateType currentVersion nv) s))"

text \<open>Lines 316 to 324: breaking awareness of the scheme, or the fallback.\<close>

definition computeIsBreaking :: "VersioningApi \<Rightarrow> string js \<Rightarrow> string \<Rightarrow> run \<Rightarrow> run" where
  "computeIsBreaking api currentVersion nv s =
     (case VersioningApi.isBreaking api of
        Some f \<Rightarrow>
          assign (\<lambda>u. u\<lparr>isBreaking := Val (f currentVersion nv)\<rparr>)
            (call (Call_isBreaking currentVersion nv) s)
      | None \<Rightarrow>
          assign (\<lambda>u. u\<lparr>isBreaking := Val (updateType u = Val Major)\<rparr>) s)"

text \<open>Lines 325 to 334: the merge confidence, when a package rule matches on it.\<close>

definition enrichConfidence ::
  "Imports \<Rightarrow> LookupUpdateConfig \<Rightarrow> string js \<Rightarrow> string \<Rightarrow> run \<Rightarrow> run" where
  "enrichConfidence imp config currentVersion nv s =
     (if (case packageRules config of
            Val prs \<Rightarrow> list_ex (\<lambda>pr. nonEmptyArray (matchConfidence pr)) prs
          | _ \<Rightarrow> False)
      then
        assign (\<lambda>u. u\<lparr>mergeConfidenceLevel :=
                  getMergeConfidenceLevel imp (datasource config) (packageName config)
                    currentVersion nv (updateType (update s))\<rparr>)
          (call (Call_getMergeConfidenceLevel (datasource config) (packageName config)
                   currentVersion nv (updateType (update s))) s)
      else s)"

text \<open>Lines 335 to 347: the three flags.\<close>

definition flagRange :: "VersioningApi \<Rightarrow> run \<Rightarrow> run" where
  "flagRange api s =
     (let s1 = call (Call_isVersion (newValue (update s))) s
      in if \<not> isVersion api (newValue (update s))
         then assign (\<lambda>u. u\<lparr>isRange := Val True\<rparr>) s1
         else s1)"

definition flagLockfileUpdate :: "string js \<Rightarrow> RangeStrategy \<Rightarrow> run \<Rightarrow> run" where
  "flagLockfileUpdate currentValue rangeStrategy s =
     (if rangeStrategy = UpdateLockfile \<and> currentValue = newValue (update s)
      then assign (\<lambda>u. u\<lparr>isLockfileUpdate := Val True\<rparr>) s
      else s)"

definition flagBump :: "VersioningApi \<Rightarrow> string js \<Rightarrow> RangeStrategy \<Rightarrow> string \<Rightarrow> run \<Rightarrow> run" where
  "flagBump api currentValue rangeStrategy nv s =
     (if rangeStrategy = Bump
      then (let s1 = call (Call_matches nv currentValue) s
            in if matches api nv currentValue
               then assign (\<lambda>u. u\<lparr>isBump := Val True\<rparr>) s1
               else s1)
      else s)"

text \<open>
  Lines 307 to 348: the guard on a missing current version, which returns at once, and
  otherwise the classification, the breaking flag, the merge confidence and the flags.
\<close>

definition finish ::
  "Imports \<Rightarrow> LookupUpdateConfig \<Rightarrow> string js \<Rightarrow> VersioningApi \<Rightarrow> RangeStrategy \<Rightarrow>
   string js \<Rightarrow> string \<Rightarrow> run \<Rightarrow> run" where
  "finish imp config currentValue api rangeStrategy currentVersion nv s =
     (if \<not> isSet (updateType (update s)) \<and> \<not> truthy currentVersion
      then assign (\<lambda>u. u\<lparr>newValue := currentValue\<rparr>)
             (call (Logger_debug (update s) ''Update has no currentVersion'') s)
      else flagBump api currentValue rangeStrategy nv
             (flagLockfileUpdate currentValue rangeStrategy
               (flagRange api
                 (enrichConfidence imp config currentVersion nv
                   (computeIsBreaking api currentVersion nv
                     (classify imp config api currentVersion nv s))))))"

text \<open>
  The whole function, lines 243 to 349, for the runs in which every call outside the
  \<open>try\<close> returns. The runs in which such a call throws are \<open>generateUpdate_exc\<close> in the
  next section.
\<close>

definition generateUpdate ::
  "Imports \<Rightarrow> LookupUpdateConfig \<Rightarrow> string js \<Rightarrow> VersioningApi \<Rightarrow> RangeStrategy \<Rightarrow>
   string js \<Rightarrow> string \<Rightarrow> Release \<Rightarrow> run" where
  "generateUpdate imp config currentValue api rangeStrategy currentVersion bkt release =
     finish imp config currentValue api rangeStrategy currentVersion (version release)
       (computeParts api (version release)
         (computeNewValue api currentValue rangeStrategy currentVersion (version release)
           (copyReleaseFields imp release
             (initial bkt release))))"

section \<open>generateUpdate with collaborators that throw\<close>

text \<open>
  Only the call of \<open>getNewValue\<close> is inside a \<open>try\<close>. Every other call of the scheme
  or of an imported function (lines 274, 304 to 306, 315, 318, 327, 335 and 344) is outside
  it, so an exception thrown there leaves \<open>generateUpdate\<close> and no descriptor is
  returned. The functions of this section are the same steps with that outcome written
  out: a run ends in \<open>Inl\<close> of the exception or in \<open>Inr\<close> of the final state.

  A call is identified by the collaborator and its arguments, as recorded in \<open>event\<close>.
  The parameter \<open>throws\<close> says, for each call outside the \<open>try\<close>, whether it throws and
  what; when it does not throw, its result is the one given by the scheme and the
  imported functions as before. The logger does not throw.
\<close>

fun outsideTry :: "event \<Rightarrow> bool" where
  "outsideTry (Call_getNewValue cv rs cver nv) = False"
| "outsideTry (Logger_warn err cv rs cver nv msg) = False"
| "outsideTry (Logger_debug u msg) = False"
| "outsideTry e = True"

text \<open>A call outside the \<open>try\<close>: the exception ends the run, otherwise the call is recorded.\<close>

definition attempt :: "(event \<Rightarrow> exn option) \<Rightarrow> event \<Rightarrow> run \<Rightarrow> exn + run" where
  "attempt throws e s = (case throws e of Some x \<Rightarrow> Inl x | None \<Rightarrow> Inr (call e s))"

text \<open>Sequencing of statements: an exception skips everything after it.\<close>

definition andThen :: "exn + run \<Rightarrow> (run \<Rightarrow> exn + run) \<Rightarrow> exn + run" where
  "andThen m f = (case m of Inl x \<Rightarrow> Inl x | Inr s \<Rightarrow> f s)"

text \<open>Lines 259 to 284; \<open>getElapsedDays\<close> may throw.\<close>

definition copyReleaseTimestamp_exc ::
  "(event \<Rightarrow> exn option) \<Rightarrow> Imports \<Rightarrow> Release \<Rightarrow> run \<Rightarrow> exn + run" where
  "copyReleaseTimestamp_exc throws imp release s =
     (case Release.releaseTimestamp release of
        Val ts \<Rightarrow>
          if ts \<noteq> [] then
            andThen
              (attempt throws (Call_getElapsedDays ts)
                (assign (\<lambda>u. u\<lparr>releaseTimestamp := Val ts\<rparr>) s))
              (\<lambda>s1. Inr (assign (\<lambda>u. u\<lparr>newVersionAgeInDays :=
                                       Val (getElapsedDays imp ts)\<rparr>) s1))
          else Inr s
      | _ \<Rightarrow> Inr s)"

definition copyReleaseFields_exc ::
  "(event \<Rightarrow> exn option) \<Rightarrow> Imports \<Rightarrow> Release \<Rightarrow> run \<Rightarrow> exn + run" where
  "copyReleaseFields_exc throws imp release s =
     andThen
       (copyReleaseTimestamp_exc throws imp release
         (copyNewDigest release
           (copyDownloadUrl release
             (copyChecksumUrl release s))))
       (\<lambda>s1. Inr (copyRegistryUrl release s1))"

text \<open>Lines 304 to 306; each of \<open>getMajor\<close>, \<open>getMinor\<close> and \<open>getPatch\<close> may throw.\<close>

definition computeParts_exc ::
  "(event \<Rightarrow> exn option) \<Rightarrow> VersioningApi \<Rightarrow> string \<Rightarrow> run \<Rightarrow> exn + run" where
  "computeParts_exc throws api nv s =
     andThen (attempt throws (Call_getMajor nv) s)
       (\<lambda>s1. andThen
          (attempt throws (Call_getMinor nv)
            (assign (\<lambda>u. u\<lparr>newMajor := getMajor api nv\<rparr>) s1))
          (\<lambda>s2. andThen
             (attempt throws (Call_getPatch nv)
               (assign (\<lambda>u. u\<lparr>newMinor := getMinor api nv\<rparr>) s2))
             (\<lambda>s3. Inr (assign (\<lambda>u. u\<lparr>newPatch := getPatch api nv\<rparr>) s3))))"

text \<open>Lines 313 to 315; \<open>getUpdateType\<close> may throw.\<close>

definition classify_exc ::
  "(event \<Rightarrow> exn option) \<Rightarrow> Imports \<Rightarrow> LookupUpdateConfig \<Rightarrow> VersioningApi \<Rightarrow>
   string js \<Rightarrow> string \<Rightarrow> run \<Rightarrow> exn + run" where
  "classify_exc throws imp config api currentVersion nv s =
     (case updateType (update s) of
        Val t \<Rightarrow> Inr (assign (\<lambda>u. u\<lparr>updateType := Val t\<rparr>) s)
      | _ \<Rightarrow>
          andThen (attempt throws (Call_getUpdateType currentVersion nv) s)
            (\<lambda>s1. Inr (assign (\<lambda>u. u\<lparr>updateType :=
                      Val (getUpdateType imp config api currentVersion nv)\<rparr>) s1)))"

text \<open>Lines 316 to 324; the scheme's \<open>isBreaking\<close> may throw.\<close>

definition computeIsBreaking_exc ::
  "(event \<Rightarrow> exn option) \<Rightarrow> VersioningApi \<Rightarrow> string js \<Rightarrow> string \<Rightarrow> run \<Rightarrow> exn + run" where
  "computeIsBreaking_exc throws api currentVersion nv s =
     (case VersioningApi.isBreaking api of
        Some f \<Rightarrow>
          andThen (attempt throws (Call_isBreaking currentVersion nv) s)
            (\<lambda>s1. Inr (assign (\<lambda>u. u\<lparr>isBreaking := Val (f currentVersion nv)\<rparr>) s1))
      | None \<Rightarrow>
          Inr (assign (\<lambda>u. u\<lparr>isBreaking := Val (updateType u = Val Major)\<rparr>) s))"

text \<open>Lines 325 to 334; the awaited \<open>getMergeConfidenceLevel\<close> may throw (reject).\<close>

definition enrichConfidence_exc ::
  "(event \<Rightarrow> exn option) \<Rightarrow> Imports \<Rightarrow> LookupUpdateConfig \<Rightarrow> string js \<Rightarrow> string \<Rightarrow>
   run \<Rightarrow> exn + run" where
  "enrichConfidence_exc throws imp config currentVersion nv s =
     (if (case packageRules config of
            Val prs \<Rightarrow> list_ex (\<lambda>pr. nonEmptyArray (matchConfidence pr)) prs
          | _ \<Rightarrow> False)
      then
        andThen
          (attempt throws
            (Call_getMergeConfidenceLevel (datasource config) (packageName config)
               currentVersion nv (updateType (update s))) s)
          (\<lambda>s1. Inr (assign (\<lambda>u. u\<lparr>mergeConfidenceLevel :=
                    getMergeConfidenceLevel imp (datasource config) (packageName config)
                      currentVersion nv (updateType (update s))\<rparr>) s1))
      else Inr s)"

text \<open>Lines 335 to 347; \<open>isVersion\<close> and \<open>matches\<close> may throw.\<close>

definition flagRange_exc ::
  "(event \<Rightarrow> exn option) \<Rightarrow> VersioningApi \<Rightarrow> run \<Rightarrow> exn + run" where
  "flagRange_exc throws api s =
     andThen (attempt throws (Call_isVersion (newValue (update s))) s)
       (\<lambda>s1. if \<not> isVersion api (newValue (update s))
             then Inr (assign (\<lambda>u. u\<lparr>isRange := Val True\<rparr>) s1)
             else Inr s1)"

definition flagBump_exc ::
  "(event \<Rightarrow> exn option) \<Rightarrow> VersioningApi \<Rightarrow> string js \<Rightarrow> RangeStrategy \<Rightarrow> string \<Rightarrow>
   run \<Rightarrow> exn + run" where
  "flagBump_exc throws api currentValue rangeStrategy nv s =
     (if rangeStrategy = Bump
      then andThen (attempt throws (Call_matches nv currentValue) s)
             (\<lambda>s1. if matches api nv currentValue
                   then Inr (assign (\<lambda>u. u\<lparr>isBump := Val True\<rparr>) s1)
                   else Inr s1)
      else Inr s)"

text \<open>Lines 307 to 348.\<close>

definition finish_exc ::
  "(event \<Rightarrow> exn option) \<Rightarrow> Imports \<Rightarrow> LookupUpdateConfig \<Rightarrow> string js \<Rightarrow> VersioningApi \<Rightarrow>
   RangeStrategy \<Rightarrow> string js \<Rightarrow> string \<Rightarrow> run \<Rightarrow> exn + run" where
  "finish_exc throws imp config currentValue api rangeStrategy currentVersion nv s =
     (if \<not> isSet (updateType (update s)) \<and> \<not> truthy currentVersion
      then Inr (assign (\<lambda>u. u\<lparr>newValue := currentValue\<rparr>)
                 (call (Logger_debug (update s) ''Update has no currentVersion'') s))
      else
        andThen (classify_exc throws imp config api currentVersion nv s)
          (\<lambda>s1. andThen (computeIsBreaking_exc throws api currentVersion nv s1)
             (\<lambda>s2. andThen (enrichConfidence_exc throws imp config currentVersion nv s2)
                (\<lambda>s3. andThen (flagRange_exc throws api s3)
                   (\<lambda>s4. flagBump_exc throws api currentValue rangeStrategy nv
                           (flagLockfileUpdate currentValue rangeStrategy s4))))))"

text \<open>
  The whole function, lines 243 to 349. The rewrite step is \<open>computeNewValue\<close> itself:
  its \<open>catch\<close> clause turns the exception of \<open>getNewValue\<close> into an assignment.
\<close>

definition generateUpdate_exc ::
  "(event \<Rightarrow> exn option) \<Rightarrow> Imports \<Rightarrow> LookupUpdateConfig \<Rightarrow> string js \<Rightarrow> VersioningApi \<Rightarrow>
   RangeStrategy \<Rightarrow> string js \<Rightarrow> string \<Rightarrow> Release \<Rightarrow> exn + run" where
  "generateUpdate_exc throws imp config currentValue api rangeStrategy currentVersion bkt
     release =
     andThen (copyReleaseFields_exc throws imp release (initial bkt release))
       (\<lambda>s1. andThen
          (computeParts_exc throws api (version release)
            (computeNewValue api currentValue rangeStrategy currentVersion
               (version release) s1))
          (\<lambda>s2. finish_exc throws imp config currentValue api rangeStrategy currentVersion
                  (version release) s2))"

text \<open>
  The first exception among a list of calls, in program order, and the outcome of a
  run whose calls are given: the exception of the first call outside the \<open>try\<close> that
  throws, or the final state when none does.
\<close>

fun firstThrown :: "(event \<Rightarrow> exn option) \<Rightarrow> event list \<Rightarrow> exn option" where
  "firstThrown throws [] = None"
| "firstThrown throws (e # es) =
     (if outsideTry e
      then (case throws e of Some x \<Rightarrow> Some x | None \<Rightarrow> firstThrown throws es)
      else firstThrown throws es)"

definition outcome :: "(event \<Rightarrow> exn option) \<Rightarrow> run \<Rightarrow> exn + run" where
  "outcome throws r =
     (case firstThrown throws (calls r) of Some x \<Rightarrow> Inl x | None \<Rightarrow> Inr r)"

section \<open>Predicates on recorded calls\<close>

text \<open>A call of the scheme's rewrite.\<close>

fun isRewriteCall :: "event \<Rightarrow> bool" where
  "isRewriteCall (Call_getNewValue cv rs cver nv) = True"
| "isRewriteCall e = False"

text \<open>
  A call that the source makes only after the guard of line 308: classification, the
  breaking check, the merge confidence lookup and the tests behind the three flags.
\<close>

fun isAfterGuard :: "event \<Rightarrow> bool" where
  "isAfterGuard (Call_getUpdateType cver nv) = True"
| "isAfterGuard (Call_isBreaking cver nv) = True"
| "isAfterGuard (Call_getMergeConfidenceLevel d p cver nv t) = True"
| "isAfterGuard (Call_isVersion v) = True"
| "isAfterGuard (Call_matches nv cv) = True"
| "isAfterGuard e = False"

section \<open>Concrete inputs\<close>

text \<open>
  A small versioning scheme in the style of caret ranges: a version contains no caret,
  the rewrite keeps the constraint under \<open>update-lockfile\<close> and otherwise produces the
  caret range of the new version, and it has no breaking awareness.
\<close>

definition caretApi :: VersioningApi where
  "caretApi =
     \<lparr>isVersion = (\<lambda>v. case v of Val s \<Rightarrow> s \<noteq> [] \<and> CHR ''^'' \<notin> set s | _ \<Rightarrow> False),
      getMajor = (\<lambda>v. if v = ''1.5.0'' then Val 1 else Null),
      getMinor = (\<lambda>v. if v = ''1.5.0'' then Val 5 else Null),
      getPatch = (\<lambda>v. if v = ''1.5.0'' then Val 0 else Null),
      isBreaking = None,
      getNewValue = (\<lambda>cv rs cver nv.
         if rs = UpdateLockfile then Inr cv else Inr (Val (CHR ''^'' # nv))),
      matches = (\<lambda>v r. v = ''1.5.0'' \<and> r = Val ''^1.0.0'')\<rparr>"

text \<open>The same scheme with a rewrite that throws, and with a rewrite that returns \<open>null\<close>.\<close>

definition throwingApi :: VersioningApi where
  "throwingApi = caretApi\<lparr>getNewValue := (\<lambda>cv rs cver nv. Inl (Error ''unsupported range''))\<rparr>"

definition nullApi :: VersioningApi where
  "nullApi = caretApi\<lparr>getNewValue := (\<lambda>cv rs cver nv. Inr Null)\<rparr>"

text \<open>The same scheme with breaking awareness: every change of version is breaking.\<close>

definition breakingApi :: VersioningApi where
  "breakingApi =
     caretApi\<lparr>VersioningApi.isBreaking := Some (\<lambda>cver nv. cver \<noteq> Val nv)\<rparr>"

definition stubImports :: Imports where
  "stubImports =
     \<lparr>getElapsedDays = (\<lambda>ts. 3),
      getMergeConfidenceLevel = (\<lambda>d p cver nv t. Val High),
      getUpdateType = (\<lambda>c a cver nv. Minor)\<rparr>"

definition plainConfig :: LookupUpdateConfig where
  "plainConfig = \<lparr>datasource = ''npm'', packageName = ''lodash'', packageRules = Undefined\<rparr>"

definition release150 :: Release where
  "release150 =
     \<lparr>version = ''1.5.0'', checksumUrl = Undefined, downloadUrl = Undefined,
      newDigest = Undefined, releaseTimestamp = Undefined, registryUrl = Undefined\<rparr>"

text \<open>
  Which calls outside the \<open>try\<close> throw: none of them, and \<open>getMajor\<close> alone (a scheme
  that rejects the version it is asked to split).
\<close>

definition nothingThrows :: "event \<Rightarrow> exn option" where
  "nothingThrows = (\<lambda>e. None)"

definition getMajorThrows :: "event \<Rightarrow> exn option" where
  "getMajorThrows =
     (\<lambda>e. case e of Call_getMajor v \<Rightarrow> Some (Error ''invalid version'') | _ \<Rightarrow> None)"

lemmas fixture_defs =
  caretApi_def throwingApi_def nullApi_def breakingApi_def stubImports_def plainConfig_def
  release150_def

section \<open>The effect of each step\<close>

text \<open>
  Each step changes one field of the descriptor (the version parts and the timestamp
  step change two or three) and appends the calls it makes.
\<close>

lemma update_assign: "update (assign f s) = f (update s)"
  and calls_assign: "calls (assign f s) = calls s"
  and update_call: "update (call e s) = update s"
  and calls_call: "calls (call e s) = calls s @ [e]"
  by (simp_all add: assign_def call_def)

lemmas run_simps = update_assign calls_assign update_call calls_call

lemma update_copyChecksumUrl:
  "update (copyChecksumUrl release s) =
     checksumUrl_update
       (\<lambda>old. if Release.checksumUrl release \<noteq> Undefined
              then Release.checksumUrl release else old) (update s)"
  by (simp add: copyChecksumUrl_def run_simps)

lemma update_copyDownloadUrl:
  "update (copyDownloadUrl release s) =
     downloadUrl_update
       (\<lambda>old. if Release.downloadUrl release \<noteq> Undefined
              then Release.downloadUrl release else old) (update s)"
  by (simp add: copyDownloadUrl_def run_simps)

lemma update_copyNewDigest:
  "update (copyNewDigest release s) =
     newDigest_update
       (\<lambda>old. if Release.newDigest release \<noteq> Undefined
              then Release.newDigest release else old) (update s)"
  by (simp add: copyNewDigest_def run_simps)

lemma update_copyRegistryUrl:
  "update (copyRegistryUrl release s) =
     registryUrl_update
       (\<lambda>old. if Release.registryUrl release \<noteq> Undefined
              then Release.registryUrl release else old) (update s)"
  by (simp add: copyRegistryUrl_def run_simps)

lemma calls_copyUrl:
  "calls (copyChecksumUrl release s) = calls s"
  "calls (copyDownloadUrl release s) = calls s"
  "calls (copyNewDigest release s) = calls s"
  "calls (copyRegistryUrl release s) = calls s"
  by (simp_all add: copyChecksumUrl_def copyDownloadUrl_def copyNewDigest_def
        copyRegistryUrl_def run_simps)

lemma update_copyReleaseTimestamp:
  "update (copyReleaseTimestamp imp release s) =
     newVersionAgeInDays_update
       (\<lambda>old. case Release.releaseTimestamp release of
                Val ts \<Rightarrow> if ts \<noteq> [] then Val (getElapsedDays imp ts) else old
              | _ \<Rightarrow> old)
       (releaseTimestamp_update
          (\<lambda>old. case Release.releaseTimestamp release of
                   Val ts \<Rightarrow> if ts \<noteq> [] then Val ts else old
                 | _ \<Rightarrow> old)
          (update s))"
  by (simp add: copyReleaseTimestamp_def run_simps split: js.splits)

lemma calls_copyReleaseTimestamp:
  "calls (copyReleaseTimestamp imp release s) =
     calls s @ (case Release.releaseTimestamp release of
                  Val ts \<Rightarrow> if ts \<noteq> [] then [Call_getElapsedDays ts] else []
                | _ \<Rightarrow> [])"
  by (simp add: copyReleaseTimestamp_def run_simps split: js.splits)

lemma update_copyReleaseFields:
  "newValue (update (copyReleaseFields imp release s)) = newValue (update s)"
  "bucket (update (copyReleaseFields imp release s)) = bucket (update s)"
  "newVersion (update (copyReleaseFields imp release s)) = newVersion (update s)"
  "updateType (update (copyReleaseFields imp release s)) = updateType (update s)"
  "isBreaking (update (copyReleaseFields imp release s)) = isBreaking (update s)"
  "mergeConfidenceLevel (update (copyReleaseFields imp release s)) =
     mergeConfidenceLevel (update s)"
  "isRange (update (copyReleaseFields imp release s)) = isRange (update s)"
  "isLockfileUpdate (update (copyReleaseFields imp release s)) = isLockfileUpdate (update s)"
  "isBump (update (copyReleaseFields imp release s)) = isBump (update s)"
  by (simp_all add: copyReleaseFields_def update_copyChecksumUrl update_copyDownloadUrl
        update_copyNewDigest update_copyRegistryUrl update_copyReleaseTimestamp)

lemma urls_copyReleaseFields:
  "checksumUrl (update (copyReleaseFields imp release s)) =
     (if Release.checksumUrl release \<noteq> Undefined
      then Release.checksumUrl release else checksumUrl (update s))"
  "downloadUrl (update (copyReleaseFields imp release s)) =
     (if Release.downloadUrl release \<noteq> Undefined
      then Release.downloadUrl release else downloadUrl (update s))"
  "newDigest (update (copyReleaseFields imp release s)) =
     (if Release.newDigest release \<noteq> Undefined
      then Release.newDigest release else newDigest (update s))"
  "registryUrl (update (copyReleaseFields imp release s)) =
     (if Release.registryUrl release \<noteq> Undefined
      then Release.registryUrl release else registryUrl (update s))"
  by (simp_all add: copyReleaseFields_def update_copyChecksumUrl update_copyDownloadUrl
        update_copyNewDigest update_copyRegistryUrl update_copyReleaseTimestamp)

lemma calls_copyReleaseFields:
  "calls (copyReleaseFields imp release s) =
     calls s @ (case Release.releaseTimestamp release of
                  Val ts \<Rightarrow> if ts \<noteq> [] then [Call_getElapsedDays ts] else []
                | _ \<Rightarrow> [])"
  by (simp add: copyReleaseFields_def calls_copyUrl calls_copyReleaseTimestamp)

lemma update_computeNewValue:
  "update (computeNewValue api currentValue rangeStrategy currentVersion nv s) =
     newValue_update
       (\<lambda>old. if truthy currentValue
              then (case getNewValue api currentValue rangeStrategy currentVersion nv of
                      Inr v \<Rightarrow> v | Inl err \<Rightarrow> currentValue)
              else currentValue)
       (update s)"
  by (simp add: computeNewValue_def run_simps split: sum.splits)

lemma calls_computeNewValue:
  "calls (computeNewValue api currentValue rangeStrategy currentVersion nv s) =
     calls s @
     (if truthy currentValue
      then Call_getNewValue currentValue rangeStrategy currentVersion nv #
           (case getNewValue api currentValue rangeStrategy currentVersion nv of
              Inr v \<Rightarrow> []
            | Inl err \<Rightarrow>
                [Logger_warn err currentValue rangeStrategy currentVersion nv
                   ''getNewValue error''])
      else [])"
  by (simp add: computeNewValue_def run_simps split: sum.splits)

lemma update_computeParts:
  "update (computeParts api nv s) =
     newPatch_update (\<lambda>old. getPatch api nv)
       (newMinor_update (\<lambda>old. getMinor api nv)
         (newMajor_update (\<lambda>old. getMajor api nv) (update s)))"
  by (simp add: computeParts_def run_simps)

lemma calls_computeParts:
  "calls (computeParts api nv s) =
     calls s @ [Call_getMajor nv, Call_getMinor nv, Call_getPatch nv]"
  by (simp add: computeParts_def run_simps)

lemma update_classify:
  "update (classify imp config api currentVersion nv s) =
     updateType_update
       (\<lambda>old. case old of
                Val t \<Rightarrow> Val t
              | _ \<Rightarrow> Val (getUpdateType imp config api currentVersion nv))
       (update s)"
  by (simp add: classify_def run_simps split: js.splits)

lemma calls_classify:
  "calls (classify imp config api currentVersion nv s) =
     calls s @ (case updateType (update s) of
                  Val t \<Rightarrow> []
                | _ \<Rightarrow> [Call_getUpdateType currentVersion nv])"
  by (simp add: classify_def run_simps split: js.splits)

lemma update_computeIsBreaking:
  "update (computeIsBreaking api currentVersion nv s) =
     isBreaking_update
       (\<lambda>old. case VersioningApi.isBreaking api of
                Some f \<Rightarrow> Val (f currentVersion nv)
              | None \<Rightarrow> Val (updateType (update s) = Val Major))
       (update s)"
  by (simp add: computeIsBreaking_def run_simps split: option.splits)

lemma calls_computeIsBreaking:
  "calls (computeIsBreaking api currentVersion nv s) =
     calls s @ (case VersioningApi.isBreaking api of
                  Some f \<Rightarrow> [Call_isBreaking currentVersion nv]
                | None \<Rightarrow> [])"
  by (simp add: computeIsBreaking_def run_simps split: option.splits)

lemma update_enrichConfidence:
  "update (enrichConfidence imp config currentVersion nv s) =
     mergeConfidenceLevel_update
       (\<lambda>old. if (case packageRules config of
                   Val prs \<Rightarrow> list_ex (\<lambda>pr. nonEmptyArray (matchConfidence pr)) prs
                 | _ \<Rightarrow> False)
              then getMergeConfidenceLevel imp (datasource config) (packageName config)
                     currentVersion nv (updateType (update s))
              else old)
       (update s)"
  by (simp add: enrichConfidence_def run_simps)

lemma calls_enrichConfidence:
  "calls (enrichConfidence imp config currentVersion nv s) =
     calls s @
     (if (case packageRules config of
                   Val prs \<Rightarrow> list_ex (\<lambda>pr. nonEmptyArray (matchConfidence pr)) prs
                 | _ \<Rightarrow> False)
      then [Call_getMergeConfidenceLevel (datasource config) (packageName config)
              currentVersion nv (updateType (update s))]
      else [])"
  by (simp add: enrichConfidence_def run_simps)

lemma update_flagRange:
  "update (flagRange api s) =
     isRange_update
       (\<lambda>old. if \<not> isVersion api (newValue (update s)) then Val True else old)
       (update s)"
  by (simp add: flagRange_def run_simps Let_def)

lemma calls_flagRange:
  "calls (flagRange api s) = calls s @ [Call_isVersion (newValue (update s))]"
  by (simp add: flagRange_def run_simps Let_def)

lemma update_flagLockfileUpdate:
  "update (flagLockfileUpdate currentValue rangeStrategy s) =
     isLockfileUpdate_update
       (\<lambda>old. if rangeStrategy = UpdateLockfile \<and> currentValue = newValue (update s)
              then Val True else old)
       (update s)"
  by (simp add: flagLockfileUpdate_def run_simps)

lemma calls_flagLockfileUpdate:
  "calls (flagLockfileUpdate currentValue rangeStrategy s) = calls s"
  by (simp add: flagLockfileUpdate_def run_simps)

lemma update_flagBump:
  "update (flagBump api currentValue rangeStrategy nv s) =
     isBump_update
       (\<lambda>old. if rangeStrategy = Bump \<and> matches api nv currentValue
              then Val True else old)
       (update s)"
  by (simp add: flagBump_def run_simps Let_def)

lemma calls_flagBump:
  "calls (flagBump api currentValue rangeStrategy nv s) =
     calls s @ (if rangeStrategy = Bump then [Call_matches nv currentValue] else [])"
  by (simp add: flagBump_def run_simps Let_def)

lemmas step_update =
  update_copyReleaseFields urls_copyReleaseFields update_computeNewValue
  update_computeParts update_classify update_computeIsBreaking update_enrichConfidence
  update_flagRange update_flagLockfileUpdate update_flagBump

lemmas step_calls =
  calls_copyReleaseFields calls_computeNewValue calls_computeParts calls_classify
  calls_computeIsBreaking calls_enrichConfidence calls_flagRange calls_flagLockfileUpdate
  calls_flagBump


text \<open>
  The descriptor is fresh when the guard of line 308 is reached: no step before it
  assigns \<open>updateType\<close>.
\<close>

lemma updateType_before_guard:
  "updateType (update (computeParts api nv
     (computeNewValue api currentValue rangeStrategy currentVersion nv
       (copyReleaseFields imp release (initial bkt release))))) = Undefined"
  by (simp add: step_update initial_def)

text \<open>
  The guard itself: on a descriptor without \<open>updateType\<close> and with a falsy
  \<open>currentVersion\<close>, the rest of the function only logs and resets \<open>newValue\<close>.
\<close>

lemma finish_early_exit:
  assumes "\<not> isSet (updateType (update s))" and "\<not> truthy currentVersion"
  shows "finish imp config currentValue api rangeStrategy currentVersion nv s =
           assign (\<lambda>u. u\<lparr>newValue := currentValue\<rparr>)
             (call (Logger_debug (update s) ''Update has no currentVersion'') s)"
  using assms by (simp add: finish_def)

section \<open>Runs with exceptions\<close>

text \<open>
  A run with exceptions is the run in which every call returns, cut at the first call
  outside the \<open>try\<close> that throws: each step either ends with that exception or
  continues as before. So every descriptor that is returned is the one of
  \<open>generateUpdate\<close>.
\<close>

lemma firstThrown_append:
  "firstThrown t (xs @ ys) =
     (case firstThrown t xs of Some x \<Rightarrow> Some x | None \<Rightarrow> firstThrown t ys)"
  by (induction xs) (simp_all split: option.splits)

lemma andThen_Inr: "andThen (Inr s) f = f s"
  and andThen_Inl: "andThen (Inl x) f = Inl x"
  by (simp_all add: andThen_def)

lemma andThen_assoc:
  "andThen m (\<lambda>s. andThen (f s) g) = andThen (andThen m f) g"
  by (simp add: andThen_def split: sum.splits)

lemma andThen_after: "andThen (andThen m (\<lambda>s. Inr (n s))) f = andThen m (\<lambda>s. f (n s))"
  by (simp add: andThen_def split: sum.splits)

lemma outcome_clean: "firstThrown t (calls s) = None \<Longrightarrow> outcome t s = Inr s"
  by (simp add: outcome_def)

lemma outcome_copyReleaseTimestamp:
  "andThen (outcome t s) (copyReleaseTimestamp_exc t imp release) =
     outcome t (copyReleaseTimestamp imp release s)"
  by (simp add: outcome_def andThen_def copyReleaseTimestamp_exc_def attempt_def
        copyReleaseTimestamp_def run_simps firstThrown_append
      split: option.splits js.splits)

lemma outcome_copyUrl:
  "andThen (outcome t s) (\<lambda>s. Inr (copyChecksumUrl release s)) =
     outcome t (copyChecksumUrl release s)"
  "andThen (outcome t s) (\<lambda>s. Inr (copyDownloadUrl release s)) =
     outcome t (copyDownloadUrl release s)"
  "andThen (outcome t s) (\<lambda>s. Inr (copyNewDigest release s)) =
     outcome t (copyNewDigest release s)"
  "andThen (outcome t s) (\<lambda>s. Inr (copyRegistryUrl release s)) =
     outcome t (copyRegistryUrl release s)"
  by (simp_all add: outcome_def andThen_def calls_copyUrl split: option.splits)

lemma outcome_computeNewValue:
  "andThen (outcome t s)
     (\<lambda>s. Inr (computeNewValue api currentValue rangeStrategy currentVersion nv s)) =
   outcome t (computeNewValue api currentValue rangeStrategy currentVersion nv s)"
  by (simp add: outcome_def andThen_def calls_computeNewValue firstThrown_append
      split: option.splits sum.splits)

lemma outcome_computeParts:
  "andThen (outcome t s) (computeParts_exc t api nv) = outcome t (computeParts api nv s)"
  by (simp add: outcome_def andThen_def computeParts_exc_def attempt_def computeParts_def
        run_simps firstThrown_append
      split: option.splits)

lemma outcome_classify:
  "andThen (outcome t s) (classify_exc t imp config api currentVersion nv) =
     outcome t (classify imp config api currentVersion nv s)"
  by (simp add: outcome_def andThen_def classify_exc_def attempt_def classify_def
        run_simps firstThrown_append
      split: option.splits js.splits)

lemma outcome_computeIsBreaking:
  "andThen (outcome t s) (computeIsBreaking_exc t api currentVersion nv) =
     outcome t (computeIsBreaking api currentVersion nv s)"
  by (simp add: outcome_def andThen_def computeIsBreaking_exc_def attempt_def
        computeIsBreaking_def run_simps firstThrown_append
      split: option.splits)

lemma outcome_enrichConfidence:
  "andThen (outcome t s) (enrichConfidence_exc t imp config currentVersion nv) =
     outcome t (enrichConfidence imp config currentVersion nv s)"
  by (simp add: outcome_def andThen_def enrichConfidence_exc_def attempt_def
        enrichConfidence_def run_simps firstThrown_append
      split: option.splits)

lemma outcome_flagRange:
  "andThen (outcome t s) (flagRange_exc t api) = outcome t (flagRange api s)"
  by (simp add: outcome_def andThen_def flagRange_exc_def attempt_def flagRange_def
        run_simps firstThrown_append Let_def
      split: option.splits)

lemma outcome_flagLockfileUpdate:
  "andThen (outcome t s) (\<lambda>s. Inr (flagLockfileUpdate currentValue rangeStrategy s)) =
     outcome t (flagLockfileUpdate currentValue rangeStrategy s)"
  by (simp add: outcome_def andThen_def calls_flagLockfileUpdate split: option.splits)

lemma outcome_flagBump:
  "andThen (outcome t s) (flagBump_exc t api currentValue rangeStrategy nv) =
     outcome t (flagBump api currentValue rangeStrategy nv s)"
  by (simp add: outcome_def andThen_def flagBump_exc_def attempt_def flagBump_def
        run_simps firstThrown_append Let_def
      split: option.splits)


lemmas outcome_steps =
  outcome_copyReleaseTimestamp outcome_copyUrl outcome_computeNewValue outcome_computeParts
  outcome_classify outcome_computeIsBreaking outcome_enrichConfidence outcome_flagRange
  outcome_flagLockfileUpdate outcome_flagBump

lemma outcome_copyReleaseFields:
  "andThen (outcome t s) (copyReleaseFields_exc t imp release) =
     outcome t (copyReleaseFields imp release s)"
proof -
  have "andThen (outcome t s) (copyReleaseFields_exc t imp release) =
          andThen
            (andThen
              (andThen
                (andThen
                  (andThen (outcome t s) (\<lambda>s. Inr (copyChecksumUrl release s)))
                  (\<lambda>s. Inr (copyDownloadUrl release s)))
                (\<lambda>s. Inr (copyNewDigest release s)))
              (copyReleaseTimestamp_exc t imp release))
            (\<lambda>s. Inr (copyRegistryUrl release s))"
    by (simp add: copyReleaseFields_exc_def andThen_def split: sum.splits)
  also have "\<dots> = outcome t (copyReleaseFields imp release s)"
    by (simp only: outcome_steps copyReleaseFields_def)
  finally show ?thesis .
qed

lemma outcome_finish:
  "andThen (outcome t s)
     (finish_exc t imp config currentValue api rangeStrategy currentVersion nv) =
   outcome t (finish imp config currentValue api rangeStrategy currentVersion nv s)"
proof (cases "\<not> isSet (updateType (update s)) \<and> \<not> truthy currentVersion")
  case True
  then show ?thesis
    by (simp add: outcome_def andThen_def finish_exc_def finish_def run_simps
          firstThrown_append split: option.splits)
next
  case False
  then have "andThen (outcome t s)
               (finish_exc t imp config currentValue api rangeStrategy currentVersion nv) =
             andThen
               (andThen
                 (andThen
                   (andThen
                     (andThen
                       (andThen (outcome t s)
                         (classify_exc t imp config api currentVersion nv))
                       (computeIsBreaking_exc t api currentVersion nv))
                     (enrichConfidence_exc t imp config currentVersion nv))
                   (flagRange_exc t api))
                 (\<lambda>s. Inr (flagLockfileUpdate currentValue rangeStrategy s)))
               (flagBump_exc t api currentValue rangeStrategy nv)"
    by (cases "firstThrown t (calls s)")
       (auto simp add: outcome_def finish_exc_def andThen_def split: sum.splits)
  also have "\<dots> = outcome t
      (finish imp config currentValue api rangeStrategy currentVersion nv s)"
    using False by (simp only: outcome_steps finish_def if_False)
  finally show ?thesis .
qed

lemma outcome_initial: "outcome t (initial bkt release) = Inr (initial bkt release)"
  by (simp add: outcome_def initial_def)

lemma generateUpdate_exc_outcome:
  "generateUpdate_exc t imp config currentValue api rangeStrategy currentVersion bkt release =
     outcome t (generateUpdate imp config currentValue api rangeStrategy currentVersion
                  bkt release)"
proof -
  have "generateUpdate_exc t imp config currentValue api rangeStrategy currentVersion bkt
          release =
        andThen
          (andThen
            (andThen
              (andThen (outcome t (initial bkt release))
                (copyReleaseFields_exc t imp release))
              (\<lambda>s. Inr (computeNewValue api currentValue rangeStrategy currentVersion
                          (version release) s)))
            (computeParts_exc t api (version release)))
          (finish_exc t imp config currentValue api rangeStrategy currentVersion
             (version release))"
    by (simp add: generateUpdate_exc_def outcome_initial andThen_def split: sum.splits)
  also have "\<dots> = outcome t (generateUpdate imp config currentValue api rangeStrategy
                               currentVersion bkt release)"
    by (simp only: outcome_steps outcome_copyReleaseFields outcome_finish
          generateUpdate_def)
  finally show ?thesis .
qed


lemma firstThrown_nothingThrows: "firstThrown nothingThrows es = None"
  by (induction es) (simp_all add: nothingThrows_def)

section \<open>Properties of generateUpdate\<close>

text \<open>
  C1, as amended. The returned \<open>newValue\<close> is always the result of an assignment made
  by the function: it is \<open>currentValue\<close> when \<open>currentValue\<close> is falsy, when
  \<open>currentVersion\<close> is falsy (the early return) and when the rewrite throws, and it is
  the value returned by the scheme's \<open>getNewValue\<close> otherwise, whatever that value is,
  \<open>null\<close> included.
\<close>

theorem generateUpdate_newValue:
  "newValue (update (generateUpdate imp config currentValue api rangeStrategy
                       currentVersion bkt release)) =
     (if truthy currentValue \<and> truthy currentVersion
      then (case getNewValue api currentValue rangeStrategy currentVersion (version release) of
              Inr v \<Rightarrow> v
            | Inl err \<Rightarrow> currentValue)
      else currentValue)"
  by (simp add: generateUpdate_def finish_def step_update run_simps initial_def)

text \<open>
  C1, as stated, fails: with a scheme whose rewrite returns \<open>null\<close>, a truthy
  \<open>currentValue\<close> and a truthy \<open>currentVersion\<close>, the returned \<open>newValue\<close> is \<open>null\<close>, the
  value the descriptor was initialised with.
\<close>

theorem generateUpdate_newValue_null_counterexample:
  "newValue (update (generateUpdate stubImports plainConfig (Val ''^1.0.0'') nullApi Replace
                       (Val ''1.0.0'') ''latest'' release150)) = Null"
  by (simp add: generateUpdate_def finish_def step_update run_simps initial_def fixture_defs)

text \<open>
  C2, as amended. When \<open>currentValue\<close> is truthy and the scheme's \<open>getNewValue\<close> throws,
  the exception is caught inside the function: the failure goes to the logger as a
  warning with \<open>currentValue\<close>, \<open>rangeStrategy\<close>, \<open>currentVersion\<close> and \<open>newVersion\<close>, and
  \<open>newValue\<close> is \<open>currentValue\<close>. The descriptor, which carries the bucket and the new
  version, is returned when no call outside the \<open>try\<close> throws; when one does, the
  exception of the first such call reaches the caller and nothing is returned.
\<close>

theorem generateUpdate_exc_rewrite_throws:
  assumes "truthy currentValue"
    and "getNewValue api currentValue rangeStrategy currentVersion (version release) = Inl err"
  shows "generateUpdate_exc throws imp config currentValue api rangeStrategy currentVersion
           bkt release =
           (case firstThrown throws
                   (calls (generateUpdate imp config currentValue api rangeStrategy
                             currentVersion bkt release)) of
              Some x \<Rightarrow> Inl x
            | None \<Rightarrow> Inr (generateUpdate imp config currentValue api rangeStrategy
                             currentVersion bkt release))
       \<and> newValue (update (generateUpdate imp config currentValue api rangeStrategy
                             currentVersion bkt release)) = currentValue
       \<and> bucket (update (generateUpdate imp config currentValue api rangeStrategy
                             currentVersion bkt release)) = bkt
       \<and> newVersion (update (generateUpdate imp config currentValue api rangeStrategy
                             currentVersion bkt release)) = version release
       \<and> Logger_warn err currentValue rangeStrategy currentVersion (version release)
            ''getNewValue error''
          \<in> set (calls (generateUpdate imp config currentValue api rangeStrategy
                          currentVersion bkt release))"
proof -
  have "generateUpdate_exc throws imp config currentValue api rangeStrategy currentVersion
          bkt release =
        outcome throws (generateUpdate imp config currentValue api rangeStrategy
                          currentVersion bkt release)"
    by (rule generateUpdate_exc_outcome)
  moreover have
    "newValue (update (generateUpdate imp config currentValue api rangeStrategy
                         currentVersion bkt release)) = currentValue
     \<and> bucket (update (generateUpdate imp config currentValue api rangeStrategy
                         currentVersion bkt release)) = bkt
     \<and> newVersion (update (generateUpdate imp config currentValue api rangeStrategy
                         currentVersion bkt release)) = version release
     \<and> Logger_warn err currentValue rangeStrategy currentVersion (version release)
          ''getNewValue error''
        \<in> set (calls (generateUpdate imp config currentValue api rangeStrategy
                        currentVersion bkt release))"
    using assms
    by (simp add: generateUpdate_def finish_def step_update step_calls run_simps initial_def)
  ultimately show ?thesis
    by (simp add: outcome_def)
qed

theorem generateUpdate_exc_rewrite_throws_witness:
  "truthy (Val ''^1.0.0'')
   \<and> getNewValue throwingApi (Val ''^1.0.0'') Replace (Val ''1.0.0'') (version release150)
       = Inl (Error ''unsupported range'')
   \<and> generateUpdate_exc nothingThrows stubImports plainConfig (Val ''^1.0.0'') throwingApi
        Replace (Val ''1.0.0'') ''latest'' release150
       = Inr (generateUpdate stubImports plainConfig (Val ''^1.0.0'') throwingApi
                Replace (Val ''1.0.0'') ''latest'' release150)
   \<and> newValue (update (generateUpdate stubImports plainConfig (Val ''^1.0.0'') throwingApi
                         Replace (Val ''1.0.0'') ''latest'' release150)) = Val ''^1.0.0''
   \<and> newVersion (update (generateUpdate stubImports plainConfig (Val ''^1.0.0'') throwingApi
                         Replace (Val ''1.0.0'') ''latest'' release150)) = ''1.5.0''"
proof -
  have cv: "truthy (Val ''^1.0.0'')"
    by simp
  have thrown:
    "getNewValue throwingApi (Val ''^1.0.0'') Replace (Val ''1.0.0'') (version release150)
       = Inl (Error ''unsupported range'')"
    by (simp add: fixture_defs)
  show ?thesis
    using cv thrown
      generateUpdate_exc_rewrite_throws [OF cv thrown, of nothingThrows stubImports
        plainConfig "''latest''"]
    by (simp add: firstThrown_nothingThrows release150_def)
qed

text \<open>
  C2, as stated, fails: with a truthy \<open>currentValue\<close>, a \<open>getNewValue\<close> that throws and a
  \<open>getMajor\<close> that throws on the new version, the exception of \<open>getMajor\<close> (line 304,
  outside the \<open>try\<close>) reaches the caller and no descriptor is returned.
\<close>

theorem generateUpdate_exc_escape_counterexample:
  "truthy (Val ''^1.0.0'')
   \<and> getNewValue throwingApi (Val ''^1.0.0'') Replace (Val ''1.0.0'') (version release150)
       = Inl (Error ''unsupported range'')
   \<and> generateUpdate_exc getMajorThrows stubImports plainConfig (Val ''^1.0.0'') throwingApi
        Replace (Val ''1.0.0'') ''latest'' release150
       = Inl (Error ''invalid version'')"
  by (simp add: generateUpdate_exc_def copyReleaseFields_exc_def copyReleaseTimestamp_exc_def
        computeParts_exc_def andThen_def attempt_def getMajorThrows_def fixture_defs)

text \<open>
  C3. The descriptor is fresh at the guard of line 308, so no \<open>updateType\<close> is set there
  and the guard is taken exactly when \<open>currentVersion\<close> is falsy. Then \<open>newValue\<close> is
  \<open>currentValue\<close>, also when the rewrite had produced another value, and the function
  returns a descriptor without \<open>updateType\<close>, \<open>isBreaking\<close>, \<open>mergeConfidenceLevel\<close>,
  \<open>isRange\<close>, \<open>isLockfileUpdate\<close> or \<open>isBump\<close>, having made none of the calls that follow
  the guard.
\<close>

theorem generateUpdate_early_exit:
  assumes "\<not> truthy currentVersion"
  shows "newValue (update (generateUpdate imp config currentValue api rangeStrategy
                             currentVersion bkt release)) = currentValue
       \<and> updateType (update (generateUpdate imp config currentValue api rangeStrategy
                             currentVersion bkt release)) = Undefined
       \<and> isBreaking (update (generateUpdate imp config currentValue api rangeStrategy
                             currentVersion bkt release)) = Undefined
       \<and> mergeConfidenceLevel (update (generateUpdate imp config currentValue api rangeStrategy
                             currentVersion bkt release)) = Undefined
       \<and> isRange (update (generateUpdate imp config currentValue api rangeStrategy
                             currentVersion bkt release)) = Undefined
       \<and> isLockfileUpdate (update (generateUpdate imp config currentValue api rangeStrategy
                             currentVersion bkt release)) = Undefined
       \<and> isBump (update (generateUpdate imp config currentValue api rangeStrategy
                             currentVersion bkt release)) = Undefined
       \<and> filter isAfterGuard (calls (generateUpdate imp config currentValue api rangeStrategy
                             currentVersion bkt release)) = []"
  using assms
  by (simp add: generateUpdate_def finish_def step_update step_calls run_simps initial_def
           split: js.splits sum.splits)

theorem generateUpdate_early_exit_witness:
  "\<not> truthy Undefined
   \<and> \<not> truthy (Val '''')
   \<and> newValue (update (generateUpdate stubImports plainConfig (Val ''^1.0.0'') caretApi
                         Replace (Val '''') ''latest'' release150)) = Val ''^1.0.0''
   \<and> getNewValue caretApi (Val ''^1.0.0'') Replace Undefined (version release150)
       = Inr (Val ''^1.5.0'')
   \<and> newValue (update (generateUpdate stubImports plainConfig (Val ''^1.0.0'') caretApi
                         Replace Undefined ''latest'' release150)) = Val ''^1.0.0''
   \<and> updateType (update (generateUpdate stubImports plainConfig (Val ''^1.0.0'') caretApi
                         Replace Undefined ''latest'' release150)) = Undefined
   \<and> isRange (update (generateUpdate stubImports plainConfig (Val ''^1.0.0'') caretApi
                         Replace Undefined ''latest'' release150)) = Undefined"
proof -
  have cver: "\<not> truthy Undefined"
    by simp
  have empty: "\<not> truthy (Val '''')"
    by simp
  have rewritten:
    "getNewValue caretApi (Val ''^1.0.0'') Replace Undefined (version release150)
       = Inr (Val ''^1.5.0'')"
    by (simp add: fixture_defs)
  show ?thesis
    using cver empty rewritten
      generateUpdate_early_exit [OF cver, of stubImports plainConfig "Val ''^1.0.0''"
        caretApi Replace "''latest''" release150]
      generateUpdate_early_exit [OF empty, of stubImports plainConfig "Val ''^1.0.0''"
        caretApi Replace "''latest''" release150]
    by simp
qed

text \<open>
  C4, as amended. On a run that passes the guard (\<open>currentVersion\<close> truthy), with
  \<open>rangeStrategy\<close> \<open>bump\<close> and a new version that matches \<open>currentValue\<close>, the returned
  descriptor has \<open>isBump\<close> true and no \<open>isLockfileUpdate\<close> field: the flag is absent, not
  \<open>false\<close>.
\<close>

theorem generateUpdate_bump:
  assumes "truthy currentVersion"
    and "rangeStrategy = Bump"
    and "matches api (version release) currentValue"
  shows "isBump (update (generateUpdate imp config currentValue api rangeStrategy
                           currentVersion bkt release)) = Val True
       \<and> isLockfileUpdate (update (generateUpdate imp config currentValue api rangeStrategy
                           currentVersion bkt release)) = Undefined"
  using assms
  by (simp add: generateUpdate_def finish_def step_update run_simps initial_def)

theorem generateUpdate_bump_witness:
  "truthy (Val ''1.0.0'')
   \<and> matches caretApi (version release150) (Val ''^1.0.0'')
   \<and> isBump (update (generateUpdate stubImports plainConfig (Val ''^1.0.0'') caretApi Bump
      (Val ''1.0.0'') ''latest'' release150)) = Val True
   \<and> isLockfileUpdate (update (generateUpdate stubImports plainConfig (Val ''^1.0.0'') caretApi Bump
      (Val ''1.0.0'') ''latest'' release150)) = Undefined"
proof -
  have cver: "truthy (Val ''1.0.0'')"
    by simp
  have matching: "matches caretApi (version release150) (Val ''^1.0.0'')"
    by (simp add: fixture_defs)
  show ?thesis
    using cver matching
      generateUpdate_bump [OF cver refl matching, of stubImports plainConfig "''latest''"]
    by simp
qed

text \<open>
  C4, as stated, fails: on such a run \<open>isLockfileUpdate\<close> is not equal to \<open>false\<close>; line 339
  is the only assignment to it and assigns \<open>true\<close>.
\<close>

theorem generateUpdate_bump_lockfile_false_counterexample:
  "truthy (Val ''1.0.0'')
   \<and> matches caretApi (version release150) (Val ''^1.0.0'')
   \<and> isLockfileUpdate (update (generateUpdate stubImports plainConfig (Val ''^1.0.0'') caretApi
                                Bump (Val ''1.0.0'') ''latest'' release150)) \<noteq> Val False"
  by (simp add: generateUpdate_def finish_def step_update run_simps initial_def fixture_defs)

text \<open>
  C5. No returned descriptor has both \<open>isLockfileUpdate\<close> and \<open>isBump\<close> true;
  \<open>isLockfileUpdate\<close> true implies that \<open>rangeStrategy\<close> was \<open>update-lockfile\<close>, and
  \<open>isBump\<close> true implies that it was \<open>bump\<close>.
\<close>

theorem generateUpdate_flags_exclusive:
  "\<not> (isLockfileUpdate (update (generateUpdate imp config currentValue api rangeStrategy
                           currentVersion bkt release)) = Val True
      \<and> isBump (update (generateUpdate imp config currentValue api rangeStrategy
                           currentVersion bkt release)) = Val True)
   \<and> (isLockfileUpdate (update (generateUpdate imp config currentValue api rangeStrategy
                           currentVersion bkt release)) = Val True
        \<longrightarrow> rangeStrategy = UpdateLockfile)
   \<and> (isBump (update (generateUpdate imp config currentValue api rangeStrategy
                           currentVersion bkt release)) = Val True
        \<longrightarrow> rangeStrategy = Bump)"
  by (simp add: generateUpdate_def finish_def step_update run_simps initial_def)

theorem generateUpdate_flags_exclusive_witness:
  "isLockfileUpdate (update (generateUpdate stubImports plainConfig (Val ''^1.0.0'') caretApi UpdateLockfile
      (Val ''1.0.0'') ''latest'' release150)) = Val True
   \<and> isBump (update (generateUpdate stubImports plainConfig (Val ''^1.0.0'') caretApi UpdateLockfile
      (Val ''1.0.0'') ''latest'' release150)) \<noteq> Val True
   \<and> isBump (update (generateUpdate stubImports plainConfig (Val ''^1.0.0'') caretApi Bump
      (Val ''1.0.0'') ''latest'' release150)) = Val True
   \<and> isLockfileUpdate (update (generateUpdate stubImports plainConfig (Val ''^1.0.0'') caretApi Bump
      (Val ''1.0.0'') ''latest'' release150)) \<noteq> Val True"
proof -
  have lock: "isLockfileUpdate (update (generateUpdate stubImports plainConfig (Val ''^1.0.0'') caretApi UpdateLockfile
      (Val ''1.0.0'') ''latest'' release150)) = Val True"
    by (simp add: generateUpdate_def finish_def step_update run_simps initial_def fixture_defs)
  have bump: "isBump (update (generateUpdate stubImports plainConfig (Val ''^1.0.0'') caretApi Bump
      (Val ''1.0.0'') ''latest'' release150)) = Val True"
    by (simp add: generateUpdate_def finish_def step_update run_simps initial_def fixture_defs)
  show ?thesis
    using lock bump
      generateUpdate_flags_exclusive [of stubImports plainConfig "Val ''^1.0.0''" caretApi UpdateLockfile "Val ''1.0.0''"
        "''latest''" release150]
      generateUpdate_flags_exclusive [of stubImports plainConfig "Val ''^1.0.0''" caretApi Bump "Val ''1.0.0''"
        "''latest''" release150]
    by simp
qed

text \<open>
  C6. On a run that passes the guard, \<open>updateType\<close> is the classification of
  \<open>getUpdateType\<close> and \<open>isBreaking\<close> is a boolean: the answer of the scheme's \<open>isBreaking\<close>
  on \<open>currentVersion\<close> and \<open>newVersion\<close> when the scheme has that capability, and
  otherwise whether \<open>updateType\<close> is \<open>major\<close>.
\<close>

theorem generateUpdate_isBreaking:
  assumes "truthy currentVersion"
  shows "updateType (update (generateUpdate imp config currentValue api rangeStrategy
                           currentVersion bkt release))
           = Val (getUpdateType imp config api currentVersion (version release))
       \<and> isBreaking (update (generateUpdate imp config currentValue api rangeStrategy
                           currentVersion bkt release))
           = Val (case VersioningApi.isBreaking api of
                    Some f \<Rightarrow> f currentVersion (version release)
                  | None \<Rightarrow>
                      updateType (update (generateUpdate imp config currentValue api
                        rangeStrategy currentVersion bkt release)) = Val Major)"
  using assms
  by (simp add: generateUpdate_def finish_def step_update run_simps initial_def
           split: option.splits)

theorem generateUpdate_isBreaking_witness:
  "truthy (Val ''1.0.0'')
   \<and> isBreaking (update (generateUpdate stubImports plainConfig (Val ''^1.0.0'') caretApi
        Replace (Val ''1.0.0'') ''latest'' release150)) = Val False
   \<and> isBreaking (update (generateUpdate stubImports plainConfig (Val ''^1.0.0'') breakingApi
        Replace (Val ''1.0.0'') ''latest'' release150)) = Val True"
proof -
  have cver: "truthy (Val ''1.0.0'')"
    by simp
  show ?thesis
    using cver
      generateUpdate_isBreaking [OF cver, of stubImports plainConfig "Val ''^1.0.0''"
        caretApi Replace "''latest''" release150]
      generateUpdate_isBreaking [OF cver, of stubImports plainConfig "Val ''^1.0.0''"
        breakingApi Replace "''latest''" release150]
    by (simp add: fixture_defs)
qed

text \<open>
  C7. When \<open>currentValue\<close> is falsy the returned \<open>newValue\<close> is \<open>currentValue\<close> and the run
  contains no call of the scheme's \<open>getNewValue\<close>.
\<close>

theorem generateUpdate_no_rewrite:
  assumes "\<not> truthy currentValue"
  shows "newValue (update (generateUpdate imp config currentValue api rangeStrategy
                           currentVersion bkt release)) = currentValue
       \<and> filter isRewriteCall (calls (generateUpdate imp config currentValue api rangeStrategy
                           currentVersion bkt release)) = []"
  using assms
  by (simp add: generateUpdate_def finish_def step_update step_calls run_simps initial_def
           split: js.splits option.splits)

theorem generateUpdate_no_rewrite_witness:
  "\<not> truthy Undefined
   \<and> \<not> truthy (Val '''')
   \<and> newValue (update (generateUpdate stubImports plainConfig Undefined caretApi Replace
        (Val ''1.0.0'') ''latest'' release150)) = Undefined
   \<and> newValue (update (generateUpdate stubImports plainConfig (Val '''') caretApi Replace
        (Val ''1.0.0'') ''latest'' release150)) = Val ''''
   \<and> filter isRewriteCall (calls (generateUpdate stubImports plainConfig Undefined caretApi
        Replace (Val ''1.0.0'') ''latest'' release150)) = []"
proof -
  have absent: "\<not> truthy Undefined"
    by simp
  have empty: "\<not> truthy (Val '''')"
    by simp
  show ?thesis
    using absent empty
      generateUpdate_no_rewrite [OF absent, of stubImports plainConfig caretApi Replace
        "Val ''1.0.0''" "''latest''" release150]
      generateUpdate_no_rewrite [OF empty, of stubImports plainConfig caretApi Replace
        "Val ''1.0.0''" "''latest''" release150]
    by simp
qed

text \<open>
  C8. On a run that passes the guard, with \<open>rangeStrategy\<close> \<open>update-lockfile\<close> and a
  computed \<open>newValue\<close> equal to \<open>currentValue\<close>, the returned descriptor has
  \<open>isLockfileUpdate\<close> true.
\<close>

theorem generateUpdate_lockfile_update:
  assumes "truthy currentVersion"
    and "rangeStrategy = UpdateLockfile"
    and "currentValue = newValue (update (generateUpdate imp config currentValue api
            rangeStrategy currentVersion bkt release))"
  shows "isLockfileUpdate (update (generateUpdate imp config currentValue api rangeStrategy
                           currentVersion bkt release)) = Val True"
  using assms
  by (simp add: generateUpdate_def finish_def step_update run_simps initial_def
          split: if_splits sum.splits)

theorem generateUpdate_lockfile_update_witness:
  "truthy (Val ''1.0.0'')
   \<and> Val ''^1.0.0'' = newValue (update (generateUpdate stubImports plainConfig (Val ''^1.0.0'') caretApi UpdateLockfile
      (Val ''1.0.0'') ''latest'' release150))
   \<and> isLockfileUpdate (update (generateUpdate stubImports plainConfig (Val ''^1.0.0'') caretApi UpdateLockfile
      (Val ''1.0.0'') ''latest'' release150)) = Val True"
proof -
  have cver: "truthy (Val ''1.0.0'')"
    by simp
  have unchanged: "Val ''^1.0.0'' = newValue (update (generateUpdate stubImports plainConfig (Val ''^1.0.0'') caretApi UpdateLockfile
      (Val ''1.0.0'') ''latest'' release150))"
    by (simp add: generateUpdate_def finish_def step_update run_simps initial_def fixture_defs)
  show ?thesis
    using cver unchanged generateUpdate_lockfile_update [OF cver refl unchanged]
    by simp
qed

text \<open>
  C9. Each of \<open>checksumUrl\<close>, \<open>downloadUrl\<close>, \<open>newDigest\<close> and \<open>registryUrl\<close> of the
  returned descriptor is the field of the release: the value when the release has one,
  and absent when the release has none (neither \<open>null\<close> nor the empty string is put in
  its place).
\<close>

theorem generateUpdate_release_passthrough:
  "checksumUrl (update (generateUpdate imp config currentValue api rangeStrategy
                           currentVersion bkt release)) = Release.checksumUrl release
   \<and> downloadUrl (update (generateUpdate imp config currentValue api rangeStrategy
                           currentVersion bkt release)) = Release.downloadUrl release
   \<and> newDigest (update (generateUpdate imp config currentValue api rangeStrategy
                           currentVersion bkt release)) = Release.newDigest release
   \<and> registryUrl (update (generateUpdate imp config currentValue api rangeStrategy
                           currentVersion bkt release)) = Release.registryUrl release"
  by (simp add: generateUpdate_def finish_def step_update run_simps initial_def)

text \<open>
  C10. On every return path each of \<open>isRange\<close>, \<open>isLockfileUpdate\<close> and \<open>isBump\<close> is
  absent or \<open>true\<close>, never \<open>false\<close>. \<open>isRange\<close> is set only when the scheme does not
  take \<open>newValue\<close> for a version, \<open>isLockfileUpdate\<close> only under \<open>update-lockfile\<close> with
  \<open>newValue\<close> equal to \<open>currentValue\<close>, and \<open>isBump\<close> only under \<open>bump\<close> with a new
  version that matches \<open>currentValue\<close>.
\<close>

theorem generateUpdate_flags_true_or_absent:
  "(isRange (update (generateUpdate imp config currentValue api rangeStrategy
                           currentVersion bkt release)) = Undefined
    \<or> isRange (update (generateUpdate imp config currentValue api rangeStrategy
                           currentVersion bkt release)) = Val True)
   \<and> (isLockfileUpdate (update (generateUpdate imp config currentValue api rangeStrategy
                           currentVersion bkt release)) = Undefined
    \<or> isLockfileUpdate (update (generateUpdate imp config currentValue api rangeStrategy
                           currentVersion bkt release)) = Val True)
   \<and> (isBump (update (generateUpdate imp config currentValue api rangeStrategy
                           currentVersion bkt release)) = Undefined
    \<or> isBump (update (generateUpdate imp config currentValue api rangeStrategy
                           currentVersion bkt release)) = Val True)
   \<and> (isRange (update (generateUpdate imp config currentValue api rangeStrategy
                           currentVersion bkt release)) = Val True
        \<longrightarrow> \<not> isVersion api (newValue (update (generateUpdate imp config currentValue api
                           rangeStrategy currentVersion bkt release))))
   \<and> (isLockfileUpdate (update (generateUpdate imp config currentValue api rangeStrategy
                           currentVersion bkt release)) = Val True
        \<longrightarrow> rangeStrategy = UpdateLockfile
            \<and> currentValue = newValue (update (generateUpdate imp config currentValue api
                           rangeStrategy currentVersion bkt release)))
   \<and> (isBump (update (generateUpdate imp config currentValue api rangeStrategy
                           currentVersion bkt release)) = Val True
        \<longrightarrow> rangeStrategy = Bump \<and> matches api (version release) currentValue)"
  by (simp add: generateUpdate_def finish_def step_update run_simps initial_def)

theorem generateUpdate_flags_true_or_absent_witness:
  "isRange (update (generateUpdate stubImports plainConfig (Val ''^1.0.0'') caretApi Bump
      (Val ''1.0.0'') ''latest'' release150)) = Val True
   \<and> isBump (update (generateUpdate stubImports plainConfig (Val ''^1.0.0'') caretApi Bump
      (Val ''1.0.0'') ''latest'' release150)) = Val True
   \<and> isLockfileUpdate (update (generateUpdate stubImports plainConfig (Val ''^1.0.0'') caretApi UpdateLockfile
      (Val ''1.0.0'') ''latest'' release150)) = Val True
   \<and> \<not> isVersion caretApi (newValue (update (generateUpdate stubImports plainConfig (Val ''^1.0.0'') caretApi Bump
      (Val ''1.0.0'') ''latest'' release150)))
   \<and> matches caretApi (version release150) (Val ''^1.0.0'')
   \<and> Val ''^1.0.0'' = newValue (update (generateUpdate stubImports plainConfig (Val ''^1.0.0'') caretApi UpdateLockfile
      (Val ''1.0.0'') ''latest'' release150))"
proof -
  have ranged: "isRange (update (generateUpdate stubImports plainConfig (Val ''^1.0.0'') caretApi Bump
      (Val ''1.0.0'') ''latest'' release150)) = Val True"
    by (simp add: generateUpdate_def finish_def step_update run_simps initial_def fixture_defs)
  have bump: "isBump (update (generateUpdate stubImports plainConfig (Val ''^1.0.0'') caretApi Bump
      (Val ''1.0.0'') ''latest'' release150)) = Val True"
    by (simp add: generateUpdate_def finish_def step_update run_simps initial_def fixture_defs)
  have lock: "isLockfileUpdate (update (generateUpdate stubImports plainConfig (Val ''^1.0.0'') caretApi UpdateLockfile
      (Val ''1.0.0'') ''latest'' release150)) = Val True"
    by (simp add: generateUpdate_def finish_def step_update run_simps initial_def fixture_defs)
  show ?thesis
    using ranged bump lock
      generateUpdate_flags_true_or_absent [of stubImports plainConfig "Val ''^1.0.0''" caretApi Bump "Val ''1.0.0''"
        "''latest''" release150]
      generateUpdate_flags_true_or_absent [of stubImports plainConfig "Val ''^1.0.0''" caretApi UpdateLockfile "Val ''1.0.0''"
        "''latest''" release150]
    by simp
qed

end
